theory Spec2Isabelle
  imports Complex_Main "HOL-Library.AList" "HOL-Library.Code_Target_Nat"
begin

section \<open>The page as the classifier sees it\<close>

text \<open>
  The in-page script \<^verbatim>\<open>JS_GET_CLICKABLE_ELEMENTS\<close> reads, of every DOM element, its tag
  name, its attributes, a handful of reflected properties, three computed style values
  and its bounding rectangle. Numbers of the script are modelled as exact reals: the
  script only compares them with constants and copies them, so no rounding is involved
  there. The strings of the script are lists of code units, of which the model has
  those below 256.
\<close>

record DOMRect =
  rect_x :: real
  rect_y :: real
  rect_width :: real
  rect_height :: real
  rect_top :: real
  rect_right :: real
  rect_bottom :: real
  rect_left :: real

record window =
  innerHeight :: real
  innerWidth :: real

record element =
  tagName :: string
  el_attributes :: "(string \<times> string) list"
  onclick :: bool
  el_value :: string
  placeholder :: string
  innerText :: string
  textContent :: string
  visibility :: string
  display :: string
  opacity :: string
  getBoundingClientRect :: DOMRect

text \<open>An element node with its element children (\<^verbatim>\<open>element.children\<close>), in document order.\<close>

datatype node = Element element "node list"

text \<open>\<^verbatim>\<open>element.getAttribute(name)\<close>: the value, or \<^verbatim>\<open>null\<close> when the attribute is absent.\<close>

definition getAttribute :: "element \<Rightarrow> string \<Rightarrow> string option" where
  "getAttribute e name = map_of (el_attributes e) name"

text \<open>\<^verbatim>\<open>element.id\<close> reflects the \<^verbatim>\<open>id\<close> attribute, the empty string when there is none.\<close>

definition el_id :: "element \<Rightarrow> string" where
  "el_id e = (case getAttribute e ''id'' of None \<Rightarrow> [] | Some v \<Rightarrow> v)"

text \<open>Truthiness of a possibly-null string: present and not empty.\<close>

fun truthy :: "string option \<Rightarrow> bool" where
  "truthy None = False"
| "truthy (Some s) = (s \<noteq> [])"

text \<open>
  \<^verbatim>\<open>toLowerCase\<close> on code units below 256: the capital letters are A to Z and, in the
  upper half, U+00C0 to U+00DE without the multiplication sign U+00D7; each has its small
  letter 32 places on. Other code units are kept.
\<close>

definition lower_char :: "char \<Rightarrow> char" where
  "lower_char c =
     (let n = (of_char c :: nat) in
      if (65 \<le> n \<and> n \<le> 90) \<or> (192 \<le> n \<and> n \<le> 222 \<and> n \<noteq> 215) then char_of (n + 32) else c)"

definition toLowerCase :: "string \<Rightarrow> string" where
  "toLowerCase s = map lower_char s"

text \<open>\<^verbatim>\<open>trim\<close>: white space and line terminators are removed at both ends.\<close>

definition is_space :: "char \<Rightarrow> bool" where
  "is_space c = ((of_char c :: nat) \<in> {9, 10, 11, 12, 13, 32, 160})"

definition trim :: "string \<Rightarrow> string" where
  "trim s = rev (dropWhile is_space (rev (dropWhile is_space s)))"

text \<open>Decimal digits of a number, for the template \<^verbatim>\<open>[${idx + 1}]\<close>.\<close>

fun string_of_nat :: "nat \<Rightarrow> string" where
  "string_of_nat n =
     (if n < 10 then [char_of (48 + n)]
      else string_of_nat (n div 10) @ [char_of (48 + n mod 10)])"

text \<open>\<^verbatim>\<open>parts.join('/')\<close>.\<close>

fun join :: "string \<Rightarrow> string list \<Rightarrow> string" where
  "join sep [] = []"
| "join sep [p] = p"
| "join sep (p # q # ps) = p @ sep @ join sep (q # ps)"

subsection \<open>The helper functions of the script\<close>

text \<open>
  The script guards against a missing element (\<^verbatim>\<open>!element\<close>) and against a node without
  \<^verbatim>\<open>getBoundingClientRect\<close>. The traversal starts at the body and follows
  \<^verbatim>\<open>element.children\<close>, so every node it visits is an element, which has the method; the
  two guards have no case in the model.
\<close>

definition isVisible :: "element \<Rightarrow> bool" where
  "isVisible e =
     (let rect = getBoundingClientRect e in
      (rect_top rect \<noteq> 0 \<or> rect_bottom rect \<noteq> 0 \<or> rect_width rect \<noteq> 0 \<or> rect_height rect \<noteq> 0) \<and>
      visibility e \<noteq> ''hidden'' \<and>
      display e \<noteq> ''none'' \<and>
      opacity e \<noteq> ''0'')"

definition isInViewport :: "window \<Rightarrow> element \<Rightarrow> bool" where
  "isInViewport w e =
     (let rect = getBoundingClientRect e in
      rect_top rect \<ge> - 100 \<and>
      rect_left rect \<ge> - 100 \<and>
      rect_bottom rect \<le> innerHeight w + 100 \<and>
      rect_right rect \<le> innerWidth w + 100)"

definition interactiveTags :: "string list" where
  "interactiveTags = [''a'', ''button'', ''input'', ''select'', ''textarea'', ''details'', ''summary'']"

definition interactiveRoles :: "string list" where
  "interactiveRoles = [''button'', ''link'', ''checkbox'', ''radio'', ''tab'', ''menuitem'']"

definition isInteractive :: "element \<Rightarrow> bool" where
  "isInteractive e =
     (if List.member interactiveTags (toLowerCase (tagName e)) then True
      else if (case getAttribute e ''role'' of
                 None \<Rightarrow> False
               | Some role \<Rightarrow> role \<noteq> [] \<and> List.member interactiveRoles role) then True
      else if onclick e \<or> truthy (getAttribute e ''onclick'') \<or>
              truthy (getAttribute e ''ng-click'') \<or> truthy (getAttribute e ''@click'') then True
      else if truthy (getAttribute e ''tabindex'') \<and> getAttribute e ''tabindex'' \<noteq> Some ''-1'' then True
      else if getAttribute e ''contenteditable'' = Some ''true'' then True
      else False)"

definition getElementText :: "element \<Rightarrow> string" where
  "getElementText e =
     (if toLowerCase (tagName e) = ''input'' then
        (if el_value e \<noteq> [] then el_value e
         else if placeholder e \<noteq> [] then placeholder e else [])
      else
        (if innerText e \<noteq> [] then innerText e
         else if textContent e \<noteq> [] then textContent e else []))"

text \<open>
  \<^verbatim>\<open>getXPath\<close> walks from the element up through \<^verbatim>\<open>parentNode\<close> while the node is an
  element, and at each level counts the preceding siblings that are elements with the same
  \<^verbatim>\<open>tagName\<close>. A level is therefore given by a tag name and the tag names of the element
  siblings before it; the ancestors are listed nearest first.
\<close>

type_synonym level = "string \<times> string list"

definition path_part :: "level \<Rightarrow> string" where
  "path_part lv =
     (let idx = length (filter (\<lambda>t. t = fst lv) (snd lv));
          pathIndex = (if idx \<noteq> 0 then ''['' @ string_of_nat (idx + 1) @ '']'' else [])
      in toLowerCase (fst lv) @ pathIndex)"

definition getXPath :: "element \<Rightarrow> string list \<Rightarrow> level list \<Rightarrow> string" where
  "getXPath e prev anc =
     (if el_id e \<noteq> [] then ''//*[@id='' @ [CHR 0x22] @ el_id e @ [CHR 0x22] @ '']''
      else ''/'' @ join ''/'' (map path_part (rev ((tagName e, prev) # anc))))"

subsection \<open>The records the script returns\<close>

record js_element =
  js_index :: nat
  js_tagName :: string
  js_text :: string
  js_attributes :: "(string \<times> string) list"
  js_xpath :: string
  js_isVisible :: bool
  js_isInViewport :: bool
  js_boundingBox :: "(string \<times> real) list"

text \<open>
  \<^verbatim>\<open>attributes[attr.name] = attr.value\<close> for every attribute, into an empty object. An
  assignment to the name \<^verbatim>\<open>__proto__\<close> with a string value sets no property. The keys of
  the finished object come out as an object lists them: first the names that are array
  indices (canonical decimal numbers below 4294967295) in ascending order, then the other
  names in the order of their first assignment.
\<close>

definition is_digit :: "char \<Rightarrow> bool" where
  "is_digit c = (48 \<le> (of_char c :: nat) \<and> (of_char c :: nat) \<le> 57)"

definition digits_value :: "string \<Rightarrow> nat" where
  "digits_value s = foldl (\<lambda>n c. 10 * n + (of_char c - 48)) 0 s"

definition is_array_index :: "string \<Rightarrow> bool" where
  "is_array_index s =
     (s \<noteq> [] \<and> list_all is_digit s \<and> (length s = 1 \<or> hd s \<noteq> CHR ''0'') \<and>
      digits_value s < 4294967295)"

definition own_keys_order :: "(string \<times> 'v) list \<Rightarrow> (string \<times> 'v) list" where
  "own_keys_order kvs =
     sort_key (\<lambda>kv. digits_value (fst kv)) (filter (\<lambda>kv. is_array_index (fst kv)) kvs) @
     filter (\<lambda>kv. \<not> is_array_index (fst kv)) kvs"

definition collect_attributes :: "element \<Rightarrow> (string \<times> string) list" where
  "collect_attributes e =
     own_keys_order
       (fold (\<lambda>(name, v) acc. if name = ''__proto__'' then acc else AList.update name v acc)
          (el_attributes e) [])"

definition boundingBox_of :: "DOMRect \<Rightarrow> (string \<times> real) list" where
  "boundingBox_of rect =
     [(''x'', rect_x rect), (''y'', rect_y rect),
      (''width'', rect_width rect), (''height'', rect_height rect),
      (''top'', rect_top rect), (''right'', rect_right rect),
      (''bottom'', rect_bottom rect), (''left'', rect_left rect)]"

text \<open>The object pushed for a qualifying element, at counter value \<open>i\<close>.\<close>

definition describe :: "window \<Rightarrow> nat \<Rightarrow> level list \<Rightarrow> string list \<Rightarrow> element \<Rightarrow> js_element" where
  "describe w i anc prev e =
     \<lparr> js_index = i,
       js_tagName = toLowerCase (tagName e),
       js_text = take 100 (trim (getElementText e)),
       js_attributes = collect_attributes e,
       js_xpath = getXPath e prev anc,
       js_isVisible = True,
       js_isInViewport = isInViewport w e,
       js_boundingBox = boundingBox_of (getBoundingClientRect e) \<rparr>"

subsection \<open>The traversal\<close>

text \<open>
  The state of a pass is the array \<^verbatim>\<open>clickableElements\<close> and the counter \<^verbatim>\<open>index\<close>.
  \<open>processElement\<close> is the script's recursive function; \<open>processChildren\<close> is its loop
  \<^verbatim>\<open>for (const child of element.children)\<close>, which carries the tag names of the children
  already passed (they are the preceding siblings of the next child).
\<close>

type_synonym pass_state = "js_element list \<times> nat"

fun processElement :: "window \<Rightarrow> level list \<Rightarrow> string list \<Rightarrow> node \<Rightarrow> pass_state \<Rightarrow> pass_state"
  and processChildren :: "window \<Rightarrow> level list \<Rightarrow> string list \<Rightarrow> node list \<Rightarrow> pass_state \<Rightarrow> pass_state"
where
  "processElement w anc prev (Element e cs) st =
     (if \<not> isVisible e then st
      else
        let st' = (if isInteractive e
                   then (fst st @ [describe w (snd st) anc prev e], snd st + 1)
                   else st)
        in processChildren w ((tagName e, prev) # anc) [] cs st')"
| "processChildren w anc prev [] st = st"
| "processChildren w anc prev (c # cs) st =
     processChildren w anc (prev @ [case c of Element e _ \<Rightarrow> tagName e]) cs
       (processElement w anc prev c st)"

text \<open>
  One evaluation of the script: the array and the counter start empty and at zero, and
  the traversal starts at \<^verbatim>\<open>document.body\<close>, whose ancestors and preceding siblings are
  \<open>anc\<close> and \<open>prev\<close>.
\<close>

definition get_clickable_elements :: "window \<Rightarrow> level list \<Rightarrow> string list \<Rightarrow> node \<Rightarrow> js_element list" where
  "get_clickable_elements w anc prev body = fst (processElement w anc prev body ([], 0))"

text \<open>
  Document order, independently of the traversal: every element of the subtree in
  pre-order, each with its position (ancestors, preceding siblings) and a flag telling
  whether it and all its ancestors up to the root of the subtree are visible.
\<close>

fun preorder :: "bool \<Rightarrow> level list \<Rightarrow> string list \<Rightarrow> node \<Rightarrow> (bool \<times> level list \<times> string list \<times> element) list"
  and preorder_list :: "bool \<Rightarrow> level list \<Rightarrow> string list \<Rightarrow> node list \<Rightarrow> (bool \<times> level list \<times> string list \<times> element) list"
where
  "preorder vis anc prev (Element e cs) =
     (vis \<and> isVisible e, anc, prev, e) #
       preorder_list (vis \<and> isVisible e) ((tagName e, prev) # anc) [] cs"
| "preorder_list vis anc prev [] = []"
| "preorder_list vis anc prev (c # cs) =
     preorder vis anc prev c @
       preorder_list vis anc (prev @ [case c of Element e _ \<Rightarrow> tagName e]) cs"

definition qualifies :: "bool \<times> level list \<times> string list \<times> element \<Rightarrow> bool" where
  "qualifies = (\<lambda>(vis, anc, prev, e). vis \<and> isInteractive e)"

definition describe_at :: "window \<Rightarrow> nat \<times> bool \<times> level list \<times> string list \<times> element \<Rightarrow> js_element" where
  "describe_at w = (\<lambda>(i, vis, anc, prev, e). describe w i anc prev e)"

section \<open>The Python side\<close>

text \<open>
  A Python string is a sequence of code points; a code point from U+D800 to U+DFFF
  standing alone is a lone surrogate. A string of the script reaches Python code unit by
  code unit. The literals of the Python source are written through \<open>py\<close>.
\<close>

type_synonym pystr = "nat list"

definition py :: "string \<Rightarrow> pystr" where
  "py s = map of_char s"

text \<open>
  A Python float is a double: a finite value, an infinity, or NaN. The model has no
  doubles, so the interpreter's addition and true division on floats are parameters.
\<close>

datatype pyfloat = Finite real | PosInf | NegInf | NaN

record float_arith =
  fl_add :: "pyfloat \<Rightarrow> pyfloat \<Rightarrow> pyfloat"
  fl_div :: "pyfloat \<Rightarrow> pyfloat \<Rightarrow> pyfloat"

record ElementInfo =
  index :: int
  tag_name :: pystr
  elem_text :: pystr
  attributes :: "(pystr \<times> pystr) list"
  xpath :: pystr
  is_visible :: bool
  is_in_viewport :: bool
  bounding_box :: "(pystr \<times> pyfloat) list"

record PageAnalysis =
  url :: pystr
  title :: pystr
  timestamp :: pystr
  elements :: "ElementInfo list"

subsection \<open>Serialization\<close>

text \<open>
  \<^verbatim>\<open>to_dict\<close> builds a tree of dictionaries, lists, strings, numbers and booleans;
  \<^verbatim>\<open>json.dump\<close> writes that tree as a JSON document. The tree is the datatype \<open>json\<close>;
  dictionaries keep their insertion order.
\<close>

datatype json =
    JBool bool
  | JInt int
  | JNumber pyfloat
  | JString pystr
  | JArray "json list"
  | JObject "(pystr \<times> json) list"

text \<open>\<^verbatim>\<open>ElementInfo.to_dict\<close>, that is \<^verbatim>\<open>dataclasses.asdict\<close>: the fields in declaration order.\<close>

definition ElementInfo_to_dict :: "ElementInfo \<Rightarrow> json" where
  "ElementInfo_to_dict e =
     JObject
       [(py ''index'', JInt (index e)),
        (py ''tag_name'', JString (tag_name e)),
        (py ''text'', JString (elem_text e)),
        (py ''attributes'', JObject (map (\<lambda>(k, v). (k, JString v)) (attributes e))),
        (py ''xpath'', JString (xpath e)),
        (py ''is_visible'', JBool (is_visible e)),
        (py ''is_in_viewport'', JBool (is_in_viewport e)),
        (py ''bounding_box'', JObject (map (\<lambda>(k, v). (k, JNumber v)) (bounding_box e)))]"

definition PageAnalysis_to_dict :: "PageAnalysis \<Rightarrow> json" where
  "PageAnalysis_to_dict a =
     JObject
       [(py ''url'', JString (url a)),
        (py ''title'', JString (title a)),
        (py ''timestamp'', JString (timestamp a)),
        (py ''elements'', JArray (map ElementInfo_to_dict (elements a)))]"

subsection \<open>Errors, and the automation engine\<close>

text \<open>
  The browser is an external collaborator. A call into it either raises or returns, and
  may change the page either way. The calls the session makes are the actions below;
  every operation of the session also returns the list of actions it performed.
\<close>

datatype error =
    ValueError pystr
  | KeyError pystr
  | AutomationError pystr
  | UnicodeEncodeError

datatype action =
    Evaluate_clickable
  | Evaluate_xpath_exists pystr
  | Evaluate_xpath_style pystr
  | Evaluate_highlight pystr int
  | Click pystr
  | Mouse_click pyfloat pyfloat

datatype response = Raised error | Returned bool

record document =
  doc_window :: window
  doc_body_ancestors :: "level list"
  doc_body_prev :: "string list"
  doc_body :: node

record 'p engine =
  respond :: "action \<Rightarrow> 'p \<Rightarrow> response \<times> 'p"
  live_document :: "'p \<Rightarrow> document"

record 'p WebScraper =
  headless :: bool
  page :: "'p option"

type_synonym ('p, 'a) outcome = "(error + 'a) \<times> 'p WebScraper \<times> action list"

subsection \<open>save_to_file\<close>

text \<open>
  \<^verbatim>\<open>save_to_file\<close> opens the file for writing with \<^verbatim>\<open>encoding='utf-8'\<close> and has
  \<^verbatim>\<open>json.dump(..., indent=2, ensure_ascii=False)\<close> write the tree of \<^verbatim>\<open>to_dict\<close> into it,
  piece by piece in document order, every string as it is. Two pieces can fail. A string
  with a lone surrogate cannot be encoded by the UTF-8 codec of the file, which encodes
  every other code point: the write raises \<^verbatim>\<open>UnicodeEncodeError\<close>. An integer of more
  digits than the interpreter's limit for the conversion of integers to text, 4300 by
  default, raises \<^verbatim>\<open>ValueError\<close>. The first piece that fails ends the call and leaves a
  fragment in the file. Otherwise the file holds the document of the tree, which is the
  result here; NaN and the infinities are written as \<^verbatim>\<open>NaN\<close>, \<^verbatim>\<open>Infinity\<close> and
  \<^verbatim>\<open>-Infinity\<close>. Opening the file is taken to succeed.
\<close>

definition encodable :: "pystr \<Rightarrow> bool" where
  "encodable s = list_all (\<lambda>c. \<not> (55296 \<le> c \<and> c \<le> 57343)) s"

definition int_max_str_digits :: nat where
  "int_max_str_digits = 4300"

definition string_error :: "pystr \<Rightarrow> error option" where
  "string_error s = (if encodable s then None else Some UnicodeEncodeError)"

definition int_error :: "int \<Rightarrow> error option" where
  "int_error i =
     (if \<bar>i\<bar> < 10 ^ int_max_str_digits then None
      else Some (ValueError (py (''Exceeds the limit (4300 digits) for integer string conversion; '' @
                                 ''use sys.set_int_max_str_digits() to increase the limit''))))"

fun first_some :: "'a option list \<Rightarrow> 'a option" where
  "first_some [] = None"
| "first_some (None # xs) = first_some xs"
| "first_some (Some x # xs) = Some x"

text \<open>The error of the first piece of a tree that fails, if one does.\<close>

fun dump_error :: "json \<Rightarrow> error option" where
  "dump_error (JString s) = string_error s"
| "dump_error (JInt i) = int_error i"
| "dump_error (JArray js) = first_some (map dump_error js)"
| "dump_error (JObject kvs) =
     first_some (map (\<lambda>(k, v). first_some [string_error k, dump_error v]) kvs)"
| "dump_error (JBool b) = None"
| "dump_error (JNumber x) = None"

definition save_to_file :: "PageAnalysis \<Rightarrow> pystr \<Rightarrow> error + json" where
  "save_to_file a filename =
     (let doc = PageAnalysis_to_dict a
      in case dump_error doc of Some err \<Rightarrow> Inl err | None \<Rightarrow> Inr doc)"

subsection \<open>find_clickable_elements\<close>

definition to_ElementInfo :: "js_element \<Rightarrow> ElementInfo" where
  "to_ElementInfo d =
     \<lparr> index = int (js_index d),
       tag_name = py (js_tagName d),
       elem_text = py (js_text d),
       attributes = map (\<lambda>(k, v). (py k, py v)) (js_attributes d),
       xpath = py (js_xpath d),
       is_visible = js_isVisible d,
       is_in_viewport = js_isInViewport d,
       bounding_box = map (\<lambda>(k, v). (py k, Finite v)) (js_boundingBox d) \<rparr>"

definition classify :: "document \<Rightarrow> ElementInfo list" where
  "classify d =
     map to_ElementInfo
       (get_clickable_elements (doc_window d) (doc_body_ancestors d) (doc_body_prev d) (doc_body d))"

definition find_clickable_elements :: "'p engine \<Rightarrow> 'p WebScraper \<Rightarrow> ('p, ElementInfo list) outcome" where
  "find_clickable_elements eng s =
     (case page s of
        None \<Rightarrow> (Inl (ValueError (py ''No page is open. Call open_page() first.'')), s, [])
      | Some p \<Rightarrow>
          (case respond eng Evaluate_clickable p of
             (Raised err, p') \<Rightarrow> (Inl err, s\<lparr>page := Some p'\<rparr>, [Evaluate_clickable])
           | (Returned _, p') \<Rightarrow>
               (Inr (classify (live_document eng p)), s\<lparr>page := Some p'\<rparr>, [Evaluate_clickable])))"

subsection \<open>highlight_element\<close>

definition highlight_element :: "'p engine \<Rightarrow> 'p WebScraper \<Rightarrow> int \<Rightarrow> ElementInfo list \<Rightarrow> ('p, bool) outcome" where
  "highlight_element eng s element_index elems =
     (case page s of
        None \<Rightarrow> (Inr False, s, [])
      | Some p \<Rightarrow>
          (case find (\<lambda>e. index e = element_index) elems of
             None \<Rightarrow> (Inr False, s, [])
           | Some element \<Rightarrow>
               (case map_of (attributes element) (py ''id'') of
                  Some ident \<Rightarrow>
                    (let a = Evaluate_highlight (py ''#'' @ ident) element_index in
                     case respond eng a p of
                       (Raised err, p') \<Rightarrow> (Inl err, s\<lparr>page := Some p'\<rparr>, [a])
                     | (Returned r, p') \<Rightarrow> (Inr r, s\<lparr>page := Some p'\<rparr>, [a]))
                | None \<Rightarrow>
                    if xpath element \<noteq> [] then
                      (let a1 = Evaluate_xpath_exists (xpath element);
                           a2 = Evaluate_xpath_style (xpath element) in
                       case respond eng a1 p of
                         (Raised err, p') \<Rightarrow> (Inl err, s\<lparr>page := Some p'\<rparr>, [a1])
                       | (Returned selector, p') \<Rightarrow>
                           if selector then
                             (case respond eng a2 p' of
                                (Raised err, p'') \<Rightarrow> (Inl err, s\<lparr>page := Some p''\<rparr>, [a1, a2])
                              | (Returned _, p'') \<Rightarrow> (Inr True, s\<lparr>page := Some p''\<rparr>, [a1, a2]))
                           else (Inr False, s\<lparr>page := Some p'\<rparr>, [a1]))
                    else (Inr False, s, []))))"

subsection \<open>click_element\<close>

text \<open>\<^verbatim>\<open>d[key]\<close> on a dictionary: the value, or \<^verbatim>\<open>KeyError\<close>.\<close>

definition subscript :: "(pystr \<times> 'v) list \<Rightarrow> pystr \<Rightarrow> error + 'v" where
  "subscript d k = (case map_of d k of None \<Rightarrow> Inl (KeyError k) | Some v \<Rightarrow> Inr v)"

text \<open>
  The two statements \<^verbatim>\<open>x = bounding_box['x'] + bounding_box['width'] / 2\<close> and
  \<^verbatim>\<open>y = bounding_box['y'] + bounding_box['height'] / 2\<close>: the keys are read in this order,
  and the division and the addition are the interpreter's, on floats.
\<close>

definition box_center :: "float_arith \<Rightarrow> (pystr \<times> pyfloat) list \<Rightarrow> error + pyfloat \<times> pyfloat" where
  "box_center fl bb =
     (case subscript bb (py ''x'') of
        Inl err \<Rightarrow> Inl err
      | Inr bx \<Rightarrow>
          (case subscript bb (py ''width'') of
             Inl err \<Rightarrow> Inl err
           | Inr bw \<Rightarrow>
               (case subscript bb (py ''y'') of
                  Inl err \<Rightarrow> Inl err
                | Inr b_y \<Rightarrow>
                    (case subscript bb (py ''height'') of
                       Inl err \<Rightarrow> Inl err
                     | Inr bh \<Rightarrow>
                         Inr (fl_add fl bx (fl_div fl bw (Finite 2)),
                              fl_add fl b_y (fl_div fl bh (Finite 2)))))))"

text \<open>One call into the engine that returns nothing of interest: it raises, or the code goes on to return \<^verbatim>\<open>True\<close>.\<close>

definition attempt :: "'p engine \<Rightarrow> action \<Rightarrow> 'p \<Rightarrow> (error + bool) \<times> 'p \<times> action list" where
  "attempt eng a p =
     (case respond eng a p of
        (Raised err, p') \<Rightarrow> (Inl err, p', [a])
      | (Returned _, p') \<Rightarrow> (Inr True, p', [a]))"

text \<open>The body of the \<^verbatim>\<open>try\<close> statement.\<close>

definition click_try :: "float_arith \<Rightarrow> 'p engine \<Rightarrow> 'p \<Rightarrow> ElementInfo \<Rightarrow> (error + bool) \<times> 'p \<times> action list" where
  "click_try fl eng p element =
     (if xpath element \<noteq> [] then attempt eng (Click (py ''xpath='' @ xpath element)) p
      else
        (case map_of (attributes element) (py ''id'') of
           Some ident \<Rightarrow> attempt eng (Click (py ''#'' @ ident)) p
         | None \<Rightarrow>
             if bounding_box element \<noteq> [] then
               (case box_center fl (bounding_box element) of
                  Inl err \<Rightarrow> (Inl err, p, [])
                | Inr (cx, cy) \<Rightarrow> attempt eng (Mouse_click cx cy) p)
             else (Inr False, p, [])))"

text \<open>The whole method: the two guards, then the \<^verbatim>\<open>try\<close> with its handler \<^verbatim>\<open>except Exception\<close>.\<close>

definition click_element :: "float_arith \<Rightarrow> 'p engine \<Rightarrow> 'p WebScraper \<Rightarrow> int \<Rightarrow> ElementInfo list \<Rightarrow> ('p, bool) outcome" where
  "click_element fl eng s element_index elems =
     (case page s of
        None \<Rightarrow> (Inr False, s, [])
      | Some p \<Rightarrow>
          (case find (\<lambda>e. index e = element_index) elems of
             None \<Rightarrow> (Inr False, s, [])
           | Some element \<Rightarrow>
               (case click_try fl eng p element of
                  (Inl err, p', tr) \<Rightarrow> (Inr False, s\<lparr>page := Some p'\<rparr>, tr)
                | (Inr r, p', tr) \<Rightarrow> (Inr r, s\<lparr>page := Some p'\<rparr>, tr))))"

subsection \<open>Reading the document back\<close>

text \<open>
  Modelled from the spec: the reader of the JSON document. The repository writes the
  document and has no code that reads it; the spec fixes its shape as
  \<^verbatim>\<open>{url, title, timestamp, elements: [{index, tag_name, text, attributes, xpath,
  is_visible, is_in_viewport, bounding_box}, ...]}\<close>. Parsing the text that \<^verbatim>\<open>json.dump\<close>
  wrote gives the tree again, its floats as new objects. The reader looks every field up
  by its key and fails on a missing key or a value of another kind.
\<close>

fun json_bool :: "json \<Rightarrow> bool option" where
  "json_bool (JBool b) = Some b"
| "json_bool _ = None"

fun json_int :: "json \<Rightarrow> int option" where
  "json_int (JInt i) = Some i"
| "json_int _ = None"

fun json_number :: "json \<Rightarrow> pyfloat option" where
  "json_number (JNumber x) = Some x"
| "json_number (JInt i) = Some (Finite (real_of_int i))"
| "json_number _ = None"

fun json_string :: "json \<Rightarrow> pystr option" where
  "json_string (JString s) = Some s"
| "json_string _ = None"

fun json_array :: "json \<Rightarrow> json list option" where
  "json_array (JArray js) = Some js"
| "json_array _ = None"

fun json_object :: "json \<Rightarrow> (pystr \<times> json) list option" where
  "json_object (JObject kvs) = Some kvs"
| "json_object _ = None"

definition field :: "(pystr \<times> json) list \<Rightarrow> pystr \<Rightarrow> (json \<Rightarrow> 'a option) \<Rightarrow> 'a option" where
  "field obj k rd = Option.bind (map_of obj k) rd"

definition json_dict :: "(json \<Rightarrow> 'v option) \<Rightarrow> json \<Rightarrow> (pystr \<times> 'v) list option" where
  "json_dict rd j =
     Option.bind (json_object j)
       (\<lambda>kvs. those (map (\<lambda>(k, v). map_option (Pair k) (rd v)) kvs))"

text \<open>
  Modelled from the spec: the reader of one entry of \<^verbatim>\<open>elements\<close>, an object with the
  eight keys of the document shape; no such function is in the repository.
\<close>

definition parse_element :: "json \<Rightarrow> ElementInfo option" where
  "parse_element j =
     Option.bind (json_object j) (\<lambda>obj.
     Option.bind (field obj (py ''index'') json_int) (\<lambda>i.
     Option.bind (field obj (py ''tag_name'') json_string) (\<lambda>tg.
     Option.bind (field obj (py ''text'') json_string) (\<lambda>tx.
     Option.bind (field obj (py ''attributes'') (json_dict json_string)) (\<lambda>ats.
     Option.bind (field obj (py ''xpath'') json_string) (\<lambda>xp.
     Option.bind (field obj (py ''is_visible'') json_bool) (\<lambda>vi.
     Option.bind (field obj (py ''is_in_viewport'') json_bool) (\<lambda>vp.
     Option.bind (field obj (py ''bounding_box'') (json_dict json_number)) (\<lambda>bb.
       Some \<lparr> index = i, tag_name = tg, elem_text = tx, attributes = ats, xpath = xp,
              is_visible = vi, is_in_viewport = vp, bounding_box = bb \<rparr>)))))))))"

text \<open>
  Modelled from the spec: the reader of the whole document, which returns the sequence
  under the key \<^verbatim>\<open>elements\<close>; no such function is in the repository.
\<close>

definition parse_elements :: "json \<Rightarrow> ElementInfo list option" where
  "parse_elements j =
     Option.bind (json_object j) (\<lambda>obj.
     Option.bind (field obj (py ''elements'') json_array) (\<lambda>js.
       those (map parse_element js)))"

text \<open>
  Equality as Python decides it between an analysis and what is read back. The generated
  \<^verbatim>\<open>__eq__\<close> of the data class compares the fields in order. Two dictionaries are equal
  when they have the same keys and equal values under each key. A float that was read
  back is another object than the original, so two floats are equal when they have the
  same value and are not NaN. Two lists are equal when they are equal element by element.
\<close>

definition float_eq :: "pyfloat \<Rightarrow> pyfloat \<Rightarrow> bool" where
  "float_eq a b = (a = b \<and> a \<noteq> NaN)"

definition dict_eq :: "('v \<Rightarrow> 'v \<Rightarrow> bool) \<Rightarrow> (pystr \<times> 'v) list \<Rightarrow> (pystr \<times> 'v) list \<Rightarrow> bool" where
  "dict_eq veq d1 d2 =
     (set (map fst d1) = set (map fst d2) \<and>
      list_all (\<lambda>k. case (map_of d1 k, map_of d2 k) of
                       (Some a, Some b) \<Rightarrow> veq a b
                     | _ \<Rightarrow> False) (map fst d1))"

definition ElementInfo_eq :: "ElementInfo \<Rightarrow> ElementInfo \<Rightarrow> bool" where
  "ElementInfo_eq e1 e2 =
     (index e1 = index e2 \<and> tag_name e1 = tag_name e2 \<and> elem_text e1 = elem_text e2 \<and>
      dict_eq (=) (attributes e1) (attributes e2) \<and> xpath e1 = xpath e2 \<and>
      is_visible e1 = is_visible e2 \<and> is_in_viewport e1 = is_in_viewport e2 \<and>
      dict_eq float_eq (bounding_box e1) (bounding_box e2))"

text \<open>
  The conditions on an analysis under which the document can be written and compares
  equal when read back: no string of it has a lone surrogate, no index has more digits
  than the limit, and no box value is NaN.
\<close>

definition element_strings :: "ElementInfo \<Rightarrow> pystr list" where
  "element_strings e =
     [tag_name e, elem_text e] @ concat (map (\<lambda>(k, v). [k, v]) (attributes e)) @
     [xpath e] @ map fst (bounding_box e)"

definition analysis_strings :: "PageAnalysis \<Rightarrow> pystr list" where
  "analysis_strings a = [url a, title a, timestamp a] @ concat (map element_strings (elements a))"

definition no_lone_surrogate :: "PageAnalysis \<Rightarrow> bool" where
  "no_lone_surrogate a = list_all encodable (analysis_strings a)"

definition indices_writable :: "PageAnalysis \<Rightarrow> bool" where
  "indices_writable a = list_all (\<lambda>e. \<bar>index e\<bar> < 10 ^ int_max_str_digits) (elements a)"

definition no_nan :: "PageAnalysis \<Rightarrow> bool" where
  "no_nan a = list_all (\<lambda>e. list_all (\<lambda>kv. snd kv \<noteq> NaN) (bounding_box e)) (elements a)"

section \<open>The click chain as the specification words it\<close>

text \<open>
  The specification describes \<^verbatim>\<open>click\<close> as a chain: the strategies that apply to the
  element, in the order XPath locator, id selector, coordinates, are attempted one after
  the other, an attempt that raises counts as failed, and the first attempt that succeeds
  ends the chain with success. These definitions follow that wording, for comparison with
  \<open>click_element\<close>.
\<close>

definition spec_click_strategies :: "float_arith \<Rightarrow> ElementInfo \<Rightarrow> action list" where
  "spec_click_strategies fl el =
     (if xpath el \<noteq> [] then [Click (py ''xpath='' @ xpath el)] else []) @
     (case map_of (attributes el) (py ''id'') of
        Some ident \<Rightarrow> [Click (py ''#'' @ ident)]
      | None \<Rightarrow> []) @
     (case box_center fl (bounding_box el) of
        Inr (cx, cy) \<Rightarrow> [Mouse_click cx cy]
      | Inl err \<Rightarrow> [])"

fun spec_first_success :: "'p engine \<Rightarrow> action list \<Rightarrow> 'p \<Rightarrow> bool \<times> 'p \<times> action list" where
  "spec_first_success eng [] p = (False, p, [])"
| "spec_first_success eng (a # rest) p =
     (case respond eng a p of
        (Returned r, p') \<Rightarrow> (True, p', [a])
      | (Raised err, p') \<Rightarrow>
          (case spec_first_success eng rest p' of (r, p'', tr) \<Rightarrow> (r, p'', a # tr)))"

definition spec_click_chain :: "float_arith \<Rightarrow> 'p engine \<Rightarrow> 'p \<Rightarrow> ElementInfo \<Rightarrow> bool \<times> 'p \<times> action list" where
  "spec_click_chain fl eng p el = spec_first_success eng (spec_click_strategies fl el) p"

section \<open>Geometry of the viewport test\<close>

text \<open>
  A rectangle as the set of its points, the viewport \<open>[0, innerWidth] \<times> [0, innerHeight]\<close>
  widened by a margin on every edge, and a rectangle lying wholly farther than the margin
  outside one of the four edges.
\<close>

definition rect_points :: "DOMRect \<Rightarrow> (real \<times> real) set" where
  "rect_points r =
     {(px, py). rect_left r \<le> px \<and> px \<le> rect_right r \<and> rect_top r \<le> py \<and> py \<le> rect_bottom r}"

definition expanded_viewport :: "window \<Rightarrow> real \<Rightarrow> (real \<times> real) set" where
  "expanded_viewport w m =
     {(px, py). - m \<le> px \<and> px \<le> innerWidth w + m \<and> - m \<le> py \<and> py \<le> innerHeight w + m}"

definition entirely_beyond :: "window \<Rightarrow> real \<Rightarrow> DOMRect \<Rightarrow> bool" where
  "entirely_beyond w m r =
     (rect_points r \<subseteq> {(px, py). py < - m} \<or>
      rect_points r \<subseteq> {(px, py). innerHeight w + m < py} \<or>
      rect_points r \<subseteq> {(px, py). px < - m} \<or>
      rect_points r \<subseteq> {(px, py). innerWidth w + m < px})"

section \<open>A sample page and sample engines\<close>

definition example_rect :: DOMRect where
  "example_rect = \<lparr> rect_x = 10, rect_y = 20, rect_width = 80, rect_height = 30,
                     rect_top = 20, rect_right = 90, rect_bottom = 50, rect_left = 10 \<rparr>"

definition example_element :: "string \<Rightarrow> (string \<times> string) list \<Rightarrow> element" where
  "example_element tag attrs =
     \<lparr> tagName = tag, el_attributes = attrs, onclick = False, el_value = [], placeholder = [],
       innerText = ''OK'', textContent = ''OK'', visibility = ''visible'', display = ''block'',
       opacity = ''1'', getBoundingClientRect = example_rect \<rparr>"

text \<open>A link, a button, a text input inside a division, and a button with \<^verbatim>\<open>id="submit"\<close>.\<close>

definition example_document :: document where
  "example_document =
     \<lparr> doc_window = \<lparr> innerHeight = 800, innerWidth = 1280 \<rparr>,
       doc_body_ancestors = [(''HTML'', [])],
       doc_body_prev = [''HEAD''],
       doc_body =
         Element (example_element ''BODY'' [])
           [Element (example_element ''A'' [(''href'', ''/home'')]) [],
            Element (example_element ''BUTTON'' []) [],
            Element (example_element ''DIV'' [])
              [Element (example_element ''INPUT'' [(''type'', ''text'')]) []],
            Element (example_element ''BUTTON'' [(''id'', ''submit'')]) []] \<rparr>"

definition submit_xpath :: pystr where
  "submit_xpath = py (''//*[@id='' @ [CHR 0x22] @ ''submit'' @ [CHR 0x22] @ '']'')"

definition example_box :: "(pystr \<times> pyfloat) list" where
  "example_box =
     [(py ''x'', Finite 10), (py ''y'', Finite 20), (py ''width'', Finite 80),
      (py ''height'', Finite 30), (py ''top'', Finite 20), (py ''right'', Finite 90),
      (py ''bottom'', Finite 50), (py ''left'', Finite 10)]"

definition example_elements :: "ElementInfo list" where
  "example_elements =
     [\<lparr> index = 0, tag_name = py ''a'', elem_text = py ''OK'',
         attributes = [(py ''href'', py ''/home'')], xpath = py ''/html/body/a'',
         is_visible = True, is_in_viewport = True, bounding_box = example_box \<rparr>,
      \<lparr> index = 1, tag_name = py ''button'', elem_text = py ''OK'', attributes = [],
         xpath = py ''/html/body/button'', is_visible = True, is_in_viewport = True,
         bounding_box = example_box \<rparr>,
      \<lparr> index = 2, tag_name = py ''input'', elem_text = [],
         attributes = [(py ''type'', py ''text'')], xpath = py ''/html/body/div/input'',
         is_visible = True, is_in_viewport = True, bounding_box = example_box \<rparr>,
      \<lparr> index = 3, tag_name = py ''button'', elem_text = py ''OK'',
         attributes = [(py ''id'', py ''submit'')], xpath = submit_xpath,
         is_visible = True, is_in_viewport = True, bounding_box = example_box \<rparr>]"

text \<open>An element as a caller may build it: no XPath, no id, only a captured box.\<close>

definition box_only_element :: ElementInfo where
  "box_only_element =
     \<lparr> index = 5, tag_name = py ''span'', elem_text = py ''more'',
       attributes = [(py ''class'', py ''btn'')],
       xpath = [], is_visible = True, is_in_viewport = True, bounding_box = example_box \<rparr>"

text \<open>
  An arithmetic for the samples. Where the exact sum or quotient of two finite doubles is
  a double, as with the values of the sample box, the double operation returns it.
\<close>

definition sample_arith :: float_arith where
  "sample_arith =
     \<lparr> fl_add = (\<lambda>a b. case (a, b) of (Finite x, Finite y) \<Rightarrow> Finite (x + y) | _ \<Rightarrow> NaN),
       fl_div = (\<lambda>a b. case (a, b) of (Finite x, Finite y) \<Rightarrow> Finite (x / y) | _ \<Rightarrow> NaN) \<rparr>"

text \<open>
  Engines over a page state that counts the calls made: one on which every call returns,
  and one on which a click through an XPath locator raises while every other call returns.
\<close>

definition engine_ok :: "nat engine" where
  "engine_ok = \<lparr> respond = (\<lambda>a p. (Returned True, Suc p)), live_document = (\<lambda>p. example_document) \<rparr>"

definition engine_xpath_fails :: "nat engine" where
  "engine_xpath_fails =
     \<lparr> respond = (\<lambda>a p. case a of
                     Click sel \<Rightarrow>
                       if take 6 sel = py ''xpath=''
                       then (Raised (AutomationError (py ''Timeout 30000ms exceeded'')), Suc p)
                       else (Returned True, Suc p)
                   | _ \<Rightarrow> (Returned True, Suc p)),
       live_document = (\<lambda>p. example_document) \<rparr>"

definition session_open :: "nat WebScraper" where
  "session_open = \<lparr> headless = True, page = Some 0 \<rparr>"

definition session_unopened :: "nat WebScraper" where
  "session_unopened = \<lparr> headless = True, page = None \<rparr>"

text \<open>A rectangle 50px above the top edge of the viewport, and one 150px below its bottom edge.\<close>

definition rect_in_margin :: DOMRect where
  "rect_in_margin = \<lparr> rect_x = 10, rect_y = - 50, rect_width = 80, rect_height = 30,
                       rect_top = - 50, rect_right = 90, rect_bottom = - 20, rect_left = 10 \<rparr>"

definition rect_far_below :: DOMRect where
  "rect_far_below = \<lparr> rect_x = 10, rect_y = 950, rect_width = 80, rect_height = 30,
                       rect_top = 950, rect_right = 90, rect_bottom = 980, rect_left = 10 \<rparr>"

text \<open>
  Three analyses: the sample page; one whose only element has the text of 99 letters
  \<^verbatim>\<open>a\<close> followed by the lone surrogate U+D83D, which is what cutting a text at 100 code
  units leaves when a surrogate pair lies across the cut; and one whose only element has
  a box with the value NaN.
\<close>

definition example_analysis :: PageAnalysis where
  "example_analysis =
     \<lparr> url = py ''https://example.org/'', title = py ''Example'',
       timestamp = py ''2024-01-01 00:00:00'', elements = example_elements \<rparr>"

definition surrogate_element :: ElementInfo where
  "surrogate_element =
     \<lparr> index = 0, tag_name = py ''button'', elem_text = replicate 99 97 @ [55357],
       attributes = [], xpath = py ''/html/body/button'',
       is_visible = True, is_in_viewport = True, bounding_box = example_box \<rparr>"

definition surrogate_analysis :: PageAnalysis where
  "surrogate_analysis =
     \<lparr> url = py ''https://example.org/'', title = py ''Example'',
       timestamp = py ''2024-01-01 00:00:00'', elements = [surrogate_element] \<rparr>"

definition nan_element :: ElementInfo where
  "nan_element =
     \<lparr> index = 0, tag_name = py ''button'', elem_text = py ''OK'',
       attributes = [], xpath = py ''/html/body/button'',
       is_visible = True, is_in_viewport = True, bounding_box = [(py ''x'', NaN)] \<rparr>"

definition nan_analysis :: PageAnalysis where
  "nan_analysis =
     \<lparr> url = py ''https://example.org/'', title = py ''Example'',
       timestamp = py ''2024-01-01 00:00:00'', elements = [nan_element] \<rparr>"

section \<open>Facts about the traversal\<close>

lemma qualifies_simp: "qualifies (vis, anc, prev, e) = (vis \<and> isInteractive e)"
  by (simp add: qualifies_def)

lemma preorder_hidden:
  "\<not> vis \<Longrightarrow> filter qualifies (preorder vis anc prev n) = []"
  "\<not> vis \<Longrightarrow> filter qualifies (preorder_list vis anc prev ns) = []"
  by (induction vis anc prev n and vis anc prev ns rule: preorder_preorder_list.induct)
     (simp_all add: qualifies_simp)

lemma process_preorder:
  "processElement w anc prev n st =
     (fst st @ map (describe_at w) (enumerate (snd st) (filter qualifies (preorder True anc prev n))),
      snd st + length (filter qualifies (preorder True anc prev n)))"
  "processChildren w anc prev ns st =
     (fst st @ map (describe_at w) (enumerate (snd st) (filter qualifies (preorder_list True anc prev ns))),
      snd st + length (filter qualifies (preorder_list True anc prev ns)))"
proof (induction w anc prev n st and w anc prev ns st rule: processElement_processChildren.induct)
  case (1 w anc prev e cs st)
  show ?case
  proof (cases "isVisible e")
    case False
    then show ?thesis by (simp add: preorder_hidden qualifies_simp)
  next
    case True
    then show ?thesis
      using "1" by (simp add: qualifies_simp describe_at_def Let_def)
  qed
next
  case (2 w anc prev st)
  show ?case by simp
next
  case (3 w anc prev c cs st)
  then show ?case by (simp add: enumerate_append_eq)
qed

lemma map_js_index_enumerate:
  "map js_index (map (describe_at w) (enumerate k xs)) = [k..<k + length xs]"
  by (induction xs arbitrary: k) (auto simp: describe_at_def describe_def upt_rec split: prod.splits)

lemma get_clickable_elements_preorder:
  "get_clickable_elements w anc prev body =
     map (describe_at w) (enumerate 0 (filter qualifies (preorder True anc prev body)))"
  by (simp add: get_clickable_elements_def process_preorder)

lemma get_clickable_elements_member:
  assumes "x \<in> set (get_clickable_elements w anc prev body)"
  shows "\<exists>i a p e. x = describe w i a p e"
proof -
  from assms obtain y where "x = describe_at w y"
    by (auto simp: get_clickable_elements_preorder)
  then show ?thesis by (cases y) (auto simp: describe_at_def)
qed

lemma classify_member:
  assumes "el \<in> set (classify d)"
  shows "\<exists>i a p e. el = to_ElementInfo (describe (doc_window d) i a p e)"
proof -
  from assms obtain x where x: "x \<in> set (get_clickable_elements (doc_window d) (doc_body_ancestors d) (doc_body_prev d) (doc_body d))"
    and el: "el = to_ElementInfo x"
    by (auto simp: classify_def)
  from get_clickable_elements_member [OF x] el show ?thesis by blast
qed

lemma getXPath_shape:
  "(\<exists>ident. ident \<noteq> [] \<and> getXPath e prev anc = ''//*[@id='' @ [CHR 0x22] @ ident @ [CHR 0x22] @ '']'') \<or>
   (\<exists>parts. parts \<noteq> [] \<and> getXPath e prev anc = ''/'' @ join ''/'' parts)"
proof (cases "el_id e = []")
  case True
  have "map path_part (rev ((tagName e, prev) # anc)) \<noteq> []" by simp
  with True show ?thesis unfolding getXPath_def by (intro disjI2 exI conjI) auto
next
  case False
  then show ?thesis unfolding getXPath_def by (intro disjI1 exI [of _ "el_id e"]) simp
qed

lemma getXPath_nonempty: "getXPath e prev anc \<noteq> [] \<and> hd (getXPath e prev anc) = CHR ''/''"
  by (simp add: getXPath_def)

section \<open>Facts about Python strings\<close>

lemma py_eq_iff [simp]: "py a = py b \<longleftrightarrow> a = b"
  using inj_of_char [where ?'a = nat] by (simp add: py_def inj_map_eq_map)

lemma py_eq_Nil [simp]: "py s = [] \<longleftrightarrow> s = []"
  by (simp add: py_def)

lemma py_hd: "s \<noteq> [] \<Longrightarrow> hd (py s) = of_char (hd s)"
  by (cases s) (simp_all add: py_def)

lemma encodable_Nil: "encodable []"
  by (simp add: encodable_def)

lemma py_encodable: "encodable (py s)"
proof -
  have "\<not> (55296 \<le> (of_char c :: nat) \<and> (of_char c :: nat) \<le> 57343)" for c
    using nat_of_char_less_256 [of c] by linarith
  then show ?thesis by (simp add: py_def encodable_def list_all_iff)
qed

section \<open>Facts about the click chain\<close>

lemma attempt_trace: "snd (snd (attempt eng a p)) = [a]"
  by (simp add: attempt_def split: prod.splits response.splits)

lemma attempt_result:
  "fst (attempt eng a p) = Inr True \<longleftrightarrow> (\<exists>b p'. respond eng a p = (Returned b, p'))"
  by (cases "respond eng a p") (auto simp: attempt_def split: response.splits)

lemma attempt_raised:
  "fst (respond eng a p) = Raised err \<Longrightarrow> attempt eng a p = (Inl err, snd (respond eng a p), [a])"
  by (cases "respond eng a p") (auto simp: attempt_def)

lemma click_element_open:
  assumes "page s = Some p" and "find (\<lambda>e. index e = i) elems = Some el"
  shows "click_element fl eng s i elems =
           (case click_try fl eng p el of
              (Inl err, p', tr) \<Rightarrow> (Inr False, s\<lparr>page := Some p'\<rparr>, tr)
            | (Inr r, p', tr) \<Rightarrow> (Inr r, s\<lparr>page := Some p'\<rparr>, tr))"
  using assms by (simp add: click_element_def)

lemma click_element_trace:
  assumes "page s = Some p" and "find (\<lambda>e. index e = i) elems = Some el"
  shows "snd (snd (click_element fl eng s i elems)) = snd (snd (click_try fl eng p el))"
  by (simp add: click_element_open [OF assms] split: prod.splits sum.splits)

lemma click_element_result:
  assumes "page s = Some p" and "find (\<lambda>e. index e = i) elems = Some el"
  shows "fst (click_element fl eng s i elems) = Inr True \<longleftrightarrow> fst (click_try fl eng p el) = Inr True"
  by (simp add: click_element_open [OF assms] split: prod.splits sum.splits)

lemma click_try_xpath:
  "xpath el \<noteq> [] \<Longrightarrow> click_try fl eng p el = attempt eng (Click (py ''xpath='' @ xpath el)) p"
  by (simp add: click_try_def)

lemma click_try_id:
  "xpath el = [] \<Longrightarrow> map_of (attributes el) (py ''id'') = Some ident \<Longrightarrow>
   click_try fl eng p el = attempt eng (Click (py ''#'' @ ident)) p"
  by (simp add: click_try_def)

lemma box_center_value:
  "map_of bb (py ''x'') = Some bx \<Longrightarrow> map_of bb (py ''y'') = Some b_y \<Longrightarrow>
   map_of bb (py ''width'') = Some bw \<Longrightarrow> map_of bb (py ''height'') = Some bh \<Longrightarrow>
   box_center fl bb =
     Inr (fl_add fl bx (fl_div fl bw (Finite 2)), fl_add fl b_y (fl_div fl bh (Finite 2)))"
  by (simp add: box_center_def subscript_def)

lemma click_try_box:
  "xpath el = [] \<Longrightarrow> map_of (attributes el) (py ''id'') = None \<Longrightarrow>
   box_center fl (bounding_box el) = Inr (cx, cy) \<Longrightarrow> bounding_box el \<noteq> [] \<Longrightarrow>
   click_try fl eng p el = attempt eng (Mouse_click cx cy) p"
  by (simp add: click_try_def)

lemma click_try_cases:
  "(\<exists>a. click_try fl eng p el = attempt eng a p) \<or>
   (\<exists>r. click_try fl eng p el = (r, p, []) \<and> r \<noteq> Inr True)"
  by (auto simp: click_try_def split: option.splits sum.splits)

lemma click_try_result:
  "fst (click_try fl eng p el) = Inr True \<longleftrightarrow>
   (\<exists>a b p'. snd (snd (click_try fl eng p el)) = [a] \<and> respond eng a p = (Returned b, p'))"
  using click_try_cases [of fl eng p el]
  by (auto simp: attempt_trace attempt_result)

lemma find_index_None: "i \<notin> set (map index elems) \<Longrightarrow> find (\<lambda>e. index e = i) elems = None"
  by (auto simp: find_None_iff)

lemma highlight_element_unresolved:
  "find (\<lambda>e. index e = i) elems = None \<Longrightarrow> highlight_element eng s i elems = (Inr False, s, [])"
  by (simp add: highlight_element_def split: option.splits)

lemma click_element_unresolved:
  "find (\<lambda>e. index e = i) elems = None \<Longrightarrow> click_element fl eng s i elems = (Inr False, s, [])"
  by (simp add: click_element_def split: option.splits)

lemma hash_not_xpath: "py ''#'' @ ident \<noteq> py ''xpath='' @ xp"
  by (simp add: py_def)

section \<open>Facts about the samples\<close>

lemma classify_example: "classify example_document = example_elements"
  by code_simp

lemma example_find3: "find (\<lambda>e. index e = 3) example_elements = Some (example_elements ! 3)"
  by (simp add: example_elements_def)

lemma example_el3:
  "xpath (example_elements ! 3) = submit_xpath"
  "attributes (example_elements ! 3) = [(py ''id'', py ''submit'')]"
  "example_elements ! 3 \<in> set example_elements"
  "bounding_box (example_elements ! 3) = example_box"
  by (simp_all add: example_elements_def)

lemma submit_xpath_nonempty: "submit_xpath \<noteq> []"
  by (simp add: submit_xpath_def)

lemma box_only_find: "find (\<lambda>e. index e = 5) [box_only_element] = Some box_only_element"
  by (simp add: box_only_element_def)

lemma box_only_fields:
  "xpath box_only_element = []"
  "map_of (attributes box_only_element) (py ''id'') = None"
  "bounding_box box_only_element = example_box"
  "index box_only_element = 5"
  by (simp_all add: box_only_element_def)

lemma example_box_values:
  "map_of example_box (py ''x'') = Some (Finite 10)"
  "map_of example_box (py ''y'') = Some (Finite 20)"
  "map_of example_box (py ''width'') = Some (Finite 80)"
  "map_of example_box (py ''height'') = Some (Finite 30)"
  by (simp_all add: example_box_def)

lemma sample_arith_finite:
  "fl_add sample_arith (Finite a) (Finite b) = Finite (a + b)"
  "fl_div sample_arith (Finite a) (Finite b) = Finite (a / b)"
  by (simp_all add: sample_arith_def)

lemma example_box_center: "box_center sample_arith example_box = Inr (Finite 50, Finite 35)"
  by (simp add: box_center_value [OF example_box_values(1,2,3,4)] sample_arith_finite)

lemma session_pages:
  "page session_open = Some 0"
  "page session_unopened = None"
  by (simp_all add: session_open_def session_unopened_def)

lemma engine_ok_respond: "respond engine_ok a p = (Returned True, Suc p)"
  by (simp add: engine_ok_def)

lemma engine_xpath_fails_respond:
  "respond engine_xpath_fails (Click (py ''xpath='' @ xp)) p =
     (Raised (AutomationError (py ''Timeout 30000ms exceeded'')), Suc p)"
  "respond engine_xpath_fails (Click (py ''#'' @ ident)) p = (Returned True, Suc p)"
  by (simp_all add: engine_xpath_fails_def py_def)

lemma example_indices: "map index example_elements = [0, 1, 2, 3]"
  by (simp add: example_elements_def)

lemma example_window: "doc_window example_document = \<lparr> innerHeight = 800, innerWidth = 1280 \<rparr>"
  by (simp add: example_document_def)

lemma live_document_engine_ok: "live_document engine_ok p = example_document"
  by (simp add: engine_ok_def)

section \<open>Facts about the viewport test and the document\<close>

lemma rect_points_corners:
  assumes "rect_left r \<le> rect_right r" and "rect_top r \<le> rect_bottom r"
  shows "(rect_left r, rect_top r) \<in> rect_points r" and "(rect_right r, rect_bottom r) \<in> rect_points r"
  using assms by (simp_all add: rect_points_def)

lemma describe_isInViewport: "js_isInViewport (describe w i anc prev e) = isInViewport w e"
  by (simp add: describe_def)

lemma within_expanded_in_viewport:
  assumes "rect_left r \<le> rect_right r" and "rect_top r \<le> rect_bottom r"
    and "r = getBoundingClientRect e"
    and "rect_points r \<subseteq> expanded_viewport w 100"
  shows "isInViewport w e"
proof -
  from rect_points_corners [OF assms(1,2)] assms(4)
  have "(rect_left r, rect_top r) \<in> expanded_viewport w 100"
    and "(rect_right r, rect_bottom r) \<in> expanded_viewport w 100"
    by blast+
  with assms(3) show ?thesis
    by (simp add: expanded_viewport_def isInViewport_def)
qed

lemma beyond_not_in_viewport:
  assumes "rect_left r \<le> rect_right r" and "rect_top r \<le> rect_bottom r"
    and "r = getBoundingClientRect e"
    and "entirely_beyond w 100 r"
  shows "\<not> isInViewport w e"
proof -
  note c = rect_points_corners [OF assms(1,2)]
  from assms(4) consider
      "rect_points r \<subseteq> {(px, py). py < - 100}"
    | "rect_points r \<subseteq> {(px, py). innerHeight w + 100 < py}"
    | "rect_points r \<subseteq> {(px, py). px < - 100}"
    | "rect_points r \<subseteq> {(px, py). innerWidth w + 100 < px}"
    unfolding entirely_beyond_def by blast
  then show ?thesis
  proof cases
    case 1
    with c(1) have "rect_top r < - 100" by blast
    with assms(3) show ?thesis by (simp add: isInViewport_def)
  next
    case 2
    with c(2) have "innerHeight w + 100 < rect_bottom r" by blast
    with assms(3) show ?thesis by (simp add: isInViewport_def)
  next
    case 3
    with c(1) have "rect_left r < - 100" by blast
    with assms(3) show ?thesis by (simp add: isInViewport_def)
  next
    case 4
    with c(2) have "innerWidth w + 100 < rect_right r" by blast
    with assms(3) show ?thesis by (simp add: isInViewport_def)
  qed
qed

lemma json_dict_strings:
  "json_dict json_string (JObject (map (\<lambda>(k, v). (k, JString v)) kvs)) = Some kvs"
  by (induction kvs) (auto simp: json_dict_def)

lemma json_dict_numbers:
  "json_dict json_number (JObject (map (\<lambda>(k, v). (k, JNumber v)) bb)) = Some bb"
  by (induction bb) (auto simp: json_dict_def)

lemma parse_element_to_dict: "parse_element (ElementInfo_to_dict e) = Some e"
  by (simp add: parse_element_def ElementInfo_to_dict_def field_def json_dict_strings json_dict_numbers)

lemma those_parse_elements: "those (map parse_element (map ElementInfo_to_dict es)) = Some es"
  by (induction es) (simp_all add: parse_element_to_dict)

lemma first_some_Cons_None: "first_some (x # xs) = None \<longleftrightarrow> x = None \<and> first_some xs = None"
  by (cases x) simp_all

lemma string_error_None: "string_error s = None \<longleftrightarrow> encodable s"
  by (simp add: string_error_def)

lemma int_error_None: "int_error i = None \<longleftrightarrow> \<bar>i\<bar> < 10 ^ int_max_str_digits"
  by (simp add: int_error_def)

lemma string_error_py: "string_error (py s) = None"
  by (simp add: string_error_def py_encodable)

lemma int_error_small: "\<bar>i\<bar> < 10 \<Longrightarrow> int_error i = None"
proof -
  assume a: "\<bar>i\<bar> < 10"
  have "(10::int) ^ 1 \<le> 10 ^ int_max_str_digits"
    by (rule power_increasing) (simp_all add: int_max_str_digits_def)
  with a show ?thesis by (simp add: int_error_def)
qed

lemma dump_error_strings:
  "first_some (map (\<lambda>(k, v). first_some [string_error k, dump_error v])
                 (map (\<lambda>(k, v). (k, JString v)) kvs)) = None \<longleftrightarrow>
     list_all encodable (concat (map (\<lambda>(k, v). [k, v]) kvs))"
  by (induction kvs) (auto simp: first_some_Cons_None string_error_None)

lemma dump_error_numbers:
  "first_some (map (\<lambda>(k, v). first_some [string_error k, dump_error v])
                 (map (\<lambda>(k, v). (k, JNumber v)) bb)) = None \<longleftrightarrow>
     list_all encodable (map fst bb)"
  by (induction bb) (auto simp: first_some_Cons_None string_error_None)

lemma dump_error_element:
  "dump_error (ElementInfo_to_dict e) = None \<longleftrightarrow>
     \<bar>index e\<bar> < 10 ^ int_max_str_digits \<and> list_all encodable (element_strings e)"
  by (simp add: ElementInfo_to_dict_def element_strings_def first_some_Cons_None
      string_error_py string_error_None int_error_None dump_error_strings dump_error_numbers
      conj_ac del: map_map)

lemma dump_error_elements:
  "first_some (map dump_error (map ElementInfo_to_dict es)) = None \<longleftrightarrow>
     list_all (\<lambda>e. \<bar>index e\<bar> < 10 ^ int_max_str_digits) es \<and>
     list_all encodable (concat (map element_strings es))"
  by (induction es) (auto simp: first_some_Cons_None dump_error_element simp del: map_map)

lemma dump_error_analysis:
  "dump_error (PageAnalysis_to_dict a) = None \<longleftrightarrow> no_lone_surrogate a \<and> indices_writable a"
  by (simp add: PageAnalysis_to_dict_def no_lone_surrogate_def indices_writable_def
      analysis_strings_def first_some_Cons_None string_error_py string_error_None
      dump_error_elements conj_ac del: map_map)

lemma save_to_file_writes:
  assumes "no_lone_surrogate a" and "indices_writable a"
  shows "save_to_file a filename = Inr (PageAnalysis_to_dict a)"
proof -
  from assms have "dump_error (PageAnalysis_to_dict a) = None"
    by (simp add: dump_error_analysis)
  then show ?thesis by (simp add: save_to_file_def Let_def)
qed

lemma parse_to_dict: "parse_elements (PageAnalysis_to_dict a) = Some (elements a)"
  by (simp add: parse_elements_def PageAnalysis_to_dict_def field_def those_parse_elements
      del: map_map)

lemma dict_eq_refl:
  assumes "\<And>v. v \<in> snd ` set d \<Longrightarrow> veq v v"
  shows "dict_eq veq d d"
proof -
  have "case (map_of d k, map_of d k) of (Some a, Some b) \<Rightarrow> veq a b | _ \<Rightarrow> False"
    if "k \<in> set (map fst d)" for k
  proof -
    from that obtain v where v: "map_of d k = Some v"
      by (metis map_of_eq_None_iff not_Some_eq set_map)
    then have "(k, v) \<in> set d" by (rule map_of_SomeD)
    then have "v \<in> snd ` set d" by force
    with assms v show ?thesis by simp
  qed
  then show ?thesis by (simp add: dict_eq_def list_all_iff)
qed

lemma ElementInfo_eq_refl:
  assumes "list_all (\<lambda>kv. snd kv \<noteq> NaN) (bounding_box e)"
  shows "ElementInfo_eq e e"
proof -
  have "dict_eq (=) (attributes e) (attributes e)" by (rule dict_eq_refl) simp
  moreover have "dict_eq float_eq (bounding_box e) (bounding_box e)"
    using assms by (intro dict_eq_refl) (auto simp: float_eq_def list_all_iff)
  ultimately show ?thesis by (simp add: ElementInfo_eq_def)
qed

lemma elements_eq_refl:
  "no_nan a \<Longrightarrow> list_all2 ElementInfo_eq (elements a) (elements a)"
  by (simp add: no_nan_def list_all2_same list_all_iff ElementInfo_eq_refl)

section \<open>Claims\<close>

text \<open>
  Claim C1. In every classification pass the indices of the returned elements are the
  integers \<open>0, 1, \<dots>, n - 1\<close> in this order, \<open>n\<close> being the number of elements returned;
  so they are pairwise distinct. The elements are those of the document in pre-order that
  are interactive and visible together with all their ancestors up to the body, the
  \<open>k\<close>-th of them described at counter value \<open>k\<close>: the counter starts at zero in
  every pass.
\<close>

theorem classifier_indices_contiguous:
  "map index (classify d) = map int [0..<length (classify d)] \<and>
   distinct (map index (classify d)) \<and>
   get_clickable_elements w anc prev body =
     map (describe_at w) (enumerate 0 (filter qualifies (preorder True anc prev body)))"
proof -
  let ?g = "get_clickable_elements (doc_window d) (doc_body_ancestors d) (doc_body_prev d) (doc_body d)"
  have a: "map js_index ?g = [0..<length ?g]"
    by (simp add: get_clickable_elements_preorder map_js_index_enumerate del: map_map)
  have "map index (classify d) = map int (map js_index ?g)"
    by (simp add: classify_def to_ElementInfo_def comp_def)
  then have b: "map index (classify d) = map int [0..<length (classify d)]"
    using a by (simp add: classify_def)
  have "distinct (map int [0..<length (classify d)])"
    by (simp add: distinct_map inj_on_def)
  with b show ?thesis by (simp add: get_clickable_elements_preorder)
qed

text \<open>
  Claim C2, as amended. The \<^verbatim>\<open>try\<close> statement of \<^verbatim>\<open>click_element\<close> encloses the whole
  chain. When the engine raises on the call that \<^verbatim>\<open>click_element\<close> makes, the error is
  caught, the method returns \<^verbatim>\<open>False\<close> at once, and that call is the only one made: no
  further strategy is attempted.
\<close>

theorem click_element_error_ends_call:
  assumes "page s = Some p"
    and "snd (snd (click_element fl eng s i elems)) = a # rest"
    and "fst (respond eng a p) = Raised err"
  shows "click_element fl eng s i elems = (Inr False, s\<lparr>page := Some (snd (respond eng a p))\<rparr>, [a])"
proof (cases "find (\<lambda>e. index e = i) elems")
  case None
  with assms show ?thesis by (simp add: click_element_def)
next
  case (Some el)
  note op = click_element_open [OF assms(1) Some, where fl = fl and eng = eng]
  from click_try_cases [of fl eng p el] show ?thesis
  proof
    assume "\<exists>b. click_try fl eng p el = attempt eng b p"
    then obtain b where b: "click_try fl eng p el = attempt eng b p" ..
    with assms(2) have "b = a"
      by (simp add: click_element_trace [OF assms(1) Some] attempt_trace)
    with b assms(3) show ?thesis
      by (simp add: op attempt_raised)
  next
    assume "\<exists>r. click_try fl eng p el = (r, p, []) \<and> r \<noteq> Inr True"
    with assms(2) op show ?thesis by (auto split: sum.splits)
  qed
qed

text \<open>
  The amended claim at the sample page: the click through the XPath locator of the
  button with \<^verbatim>\<open>id="submit"\<close> raises.
\<close>

theorem click_element_error_ends_call_witness:
  "page session_open = Some 0 \<and>
   snd (snd (click_element sample_arith engine_xpath_fails session_open 3 example_elements)) =
     [Click (py ''xpath='' @ submit_xpath)] \<and>
   fst (respond engine_xpath_fails (Click (py ''xpath='' @ submit_xpath)) 0) =
     Raised (AutomationError (py ''Timeout 30000ms exceeded'')) \<and>
   click_element sample_arith engine_xpath_fails session_open 3 example_elements =
     (Inr False, session_open\<lparr>page := Some 1\<rparr>, [Click (py ''xpath='' @ submit_xpath)])"
proof -
  have h1: "page session_open = Some 0" by (simp add: session_open_def)
  have h2: "snd (snd (click_element sample_arith engine_xpath_fails session_open 3 example_elements)) =
      Click (py ''xpath='' @ submit_xpath) # []"
    by (simp add: click_element_trace [OF h1 example_find3] example_el3 click_try_xpath
        submit_xpath_nonempty attempt_trace)
  have h3: "fst (respond engine_xpath_fails (Click (py ''xpath='' @ submit_xpath)) 0) =
      Raised (AutomationError (py ''Timeout 30000ms exceeded''))"
    by (simp add: engine_xpath_fails_respond)
  from click_element_error_ends_call [OF h1 h2 h3] h1 h2 h3 show ?thesis
    by (simp add: engine_xpath_fails_respond)
qed

text \<open>
  Claim C2 as stated fails: the element at index 3 of the sample page has an XPath, an
  id and a box; the click through the XPath locator raises, the click through the id
  selector would have returned, and yet the call reports failure after the single
  XPath attempt.
\<close>

theorem click_element_no_fall_through:
  "fst (click_element sample_arith engine_xpath_fails session_open 3 (classify example_document)) = Inr False \<and>
   snd (snd (click_element sample_arith engine_xpath_fails session_open 3 (classify example_document))) =
     [Click (py ''xpath='' @ submit_xpath)] \<and>
   map_of (attributes (classify example_document ! 3)) (py ''id'') = Some (py ''submit'') \<and>
   fst (respond engine_xpath_fails (Click (py ''#'' @ py ''submit'')) 1) = Returned True"
proof -
  have h1: "page session_open = Some 0" by (simp add: session_open_def)
  have "click_try sample_arith engine_xpath_fails 0 (example_elements ! 3) =
          (Inl (AutomationError (py ''Timeout 30000ms exceeded'')), 1,
           [Click (py ''xpath='' @ submit_xpath)])"
    by (simp add: click_try_xpath example_el3 submit_xpath_nonempty attempt_def
        engine_xpath_fails_respond)
  then show ?thesis
    by (simp add: classify_example click_element_open [OF h1 example_find3] example_el3
        engine_xpath_fails_respond)
qed

text \<open>
  Claim C3, as amended. With a page open and the index resolved, \<^verbatim>\<open>click_element\<close>
  selects one strategy, by what the element records, in the fixed order XPath locator, id
  selector, coordinates: a recorded XPath that is not empty gives the click through
  \<^verbatim>\<open>xpath=...\<close>; otherwise an \<^verbatim>\<open>id\<close> attribute gives the click through \<^verbatim>\<open>#id\<close>; otherwise a
  captured box gives a mouse click at \<^verbatim>\<open>x + width / 2\<close>, \<^verbatim>\<open>y + height / 2\<close>, computed in
  floating point from the captured values with no call to the page. Only the selected
  strategy is attempted: the call makes at most one call into the engine and reports
  success exactly when that call returned. There is no second attempt after a failed one.
\<close>

theorem click_element_strategy_order:
  assumes "page s = Some p" and "find (\<lambda>e. index e = i) elems = Some el"
  shows
    "(xpath el \<noteq> [] \<longrightarrow>
        snd (snd (click_element fl eng s i elems)) = [Click (py ''xpath='' @ xpath el)]) \<and>
     (\<forall>ident. xpath el = [] \<and> map_of (attributes el) (py ''id'') = Some ident \<longrightarrow>
        snd (snd (click_element fl eng s i elems)) = [Click (py ''#'' @ ident)]) \<and>
     (\<forall>bx b_y bw bh.
        xpath el = [] \<and> map_of (attributes el) (py ''id'') = None \<and>
        map_of (bounding_box el) (py ''x'') = Some bx \<and>
        map_of (bounding_box el) (py ''y'') = Some b_y \<and>
        map_of (bounding_box el) (py ''width'') = Some bw \<and>
        map_of (bounding_box el) (py ''height'') = Some bh \<longrightarrow>
        snd (snd (click_element fl eng s i elems)) =
          [Mouse_click (fl_add fl bx (fl_div fl bw (Finite 2)))
                       (fl_add fl b_y (fl_div fl bh (Finite 2)))]) \<and>
     (fst (click_element fl eng s i elems) = Inr True \<longleftrightarrow>
        (\<exists>a b p'. snd (snd (click_element fl eng s i elems)) = [a] \<and> respond eng a p = (Returned b, p'))) \<and>
     length (snd (snd (click_element fl eng s i elems))) \<le> 1"
proof -
  note tr = click_element_trace [OF assms, where fl = fl and eng = eng]
  have 1: "xpath el \<noteq> [] \<longrightarrow>
      snd (snd (click_element fl eng s i elems)) = [Click (py ''xpath='' @ xpath el)]"
    by (simp add: tr click_try_xpath attempt_trace)
  have 2: "\<forall>ident. xpath el = [] \<and> map_of (attributes el) (py ''id'') = Some ident \<longrightarrow>
        snd (snd (click_element fl eng s i elems)) = [Click (py ''#'' @ ident)]"
    by (simp add: tr click_try_id attempt_trace)
  have 3: "\<forall>bx b_y bw bh.
        xpath el = [] \<and> map_of (attributes el) (py ''id'') = None \<and>
        map_of (bounding_box el) (py ''x'') = Some bx \<and>
        map_of (bounding_box el) (py ''y'') = Some b_y \<and>
        map_of (bounding_box el) (py ''width'') = Some bw \<and>
        map_of (bounding_box el) (py ''height'') = Some bh \<longrightarrow>
        snd (snd (click_element fl eng s i elems)) =
          [Mouse_click (fl_add fl bx (fl_div fl bw (Finite 2)))
                       (fl_add fl b_y (fl_div fl bh (Finite 2)))]"
  proof (intro allI impI)
    fix bx b_y bw bh
    assume h: "xpath el = [] \<and> map_of (attributes el) (py ''id'') = None \<and>
        map_of (bounding_box el) (py ''x'') = Some bx \<and>
        map_of (bounding_box el) (py ''y'') = Some b_y \<and>
        map_of (bounding_box el) (py ''width'') = Some bw \<and>
        map_of (bounding_box el) (py ''height'') = Some bh"
    then have c: "box_center fl (bounding_box el) =
        Inr (fl_add fl bx (fl_div fl bw (Finite 2)), fl_add fl b_y (fl_div fl bh (Finite 2)))"
      by (simp add: box_center_value)
    from h have "bounding_box el \<noteq> []" by auto
    with h c show "snd (snd (click_element fl eng s i elems)) =
        [Mouse_click (fl_add fl bx (fl_div fl bw (Finite 2)))
                     (fl_add fl b_y (fl_div fl bh (Finite 2)))]"
      by (simp add: tr click_try_box attempt_trace)
  qed
  have 4: "fst (click_element fl eng s i elems) = Inr True \<longleftrightarrow>
        (\<exists>a b p'. snd (snd (click_element fl eng s i elems)) = [a] \<and> respond eng a p = (Returned b, p'))"
    by (simp add: tr click_element_result [OF assms] click_try_result)
  have 5: "length (snd (snd (click_element fl eng s i elems))) \<le> 1"
    using click_try_cases [of fl eng p el] by (auto simp: tr attempt_trace)
  from 1 2 3 4 5 show ?thesis by blast
qed

text \<open>
  The amended claim at an element with an empty XPath, no id and the sample box
  \<open>(10, 20, 80, 30)\<close>: the mouse click goes to \<open>(50, 35)\<close>.
\<close>

theorem click_element_strategy_order_witness:
  "page session_open = Some 0 \<and>
   find (\<lambda>e. index e = 5) [box_only_element] = Some box_only_element \<and>
   xpath box_only_element = [] \<and>
   map_of (attributes box_only_element) (py ''id'') = None \<and>
   snd (snd (click_element sample_arith engine_ok session_open 5 [box_only_element])) =
     [Mouse_click (Finite 50) (Finite 35)] \<and>
   fst (click_element sample_arith engine_ok session_open 5 [box_only_element]) = Inr True"
proof -
  have h1: "page session_open = Some 0" by (simp add: session_open_def)
  have r: "respond engine_ok (Mouse_click (Finite 50) (Finite 35)) 0 = (Returned True, 1)"
    by (simp add: engine_ok_def)
  from click_element_strategy_order
         [OF h1 box_only_find, where fl = sample_arith and eng = engine_ok] h1 r
  show ?thesis
    by (auto simp: box_only_find box_only_fields example_box_values sample_arith_finite)
qed

text \<open>
  Claim C3 as stated fails. The element at index 3 of the sample page has an XPath, an
  id and a box. On the engine whose XPath click raises, the chain of the claim goes on to
  the id selector and succeeds with it; \<^verbatim>\<open>click_element\<close> stops after the XPath click and
  reports failure, so the first successful attempt of the chain is never made.
\<close>

theorem click_element_not_a_chain:
  "spec_click_chain sample_arith engine_xpath_fails 0 (example_elements ! 3) =
     (True, 2, [Click (py ''xpath='' @ submit_xpath), Click (py ''#'' @ py ''submit'')]) \<and>
   click_element sample_arith engine_xpath_fails session_open 3 example_elements =
     (Inr False, session_open\<lparr>page := Some 1\<rparr>, [Click (py ''xpath='' @ submit_xpath)])"
proof -
  have h1: "page session_open = Some 0" by (simp add: session_open_def)
  have "spec_click_strategies sample_arith (example_elements ! 3) =
          [Click (py ''xpath='' @ submit_xpath), Click (py ''#'' @ py ''submit''),
           Mouse_click (Finite 50) (Finite 35)]"
    by (simp add: spec_click_strategies_def example_el3 submit_xpath_nonempty example_box_center)
  then have chain: "spec_click_chain sample_arith engine_xpath_fails 0 (example_elements ! 3) =
     (True, 2, [Click (py ''xpath='' @ submit_xpath), Click (py ''#'' @ py ''submit'')])"
    by (simp add: spec_click_chain_def engine_xpath_fails_respond)
  have "click_try sample_arith engine_xpath_fails 0 (example_elements ! 3) =
          (Inl (AutomationError (py ''Timeout 30000ms exceeded'')), 1,
           [Click (py ''xpath='' @ submit_xpath)])"
    by (simp add: click_try_xpath example_el3 submit_xpath_nonempty attempt_def
        engine_xpath_fails_respond)
  then have "click_element sample_arith engine_xpath_fails session_open 3 example_elements =
     (Inr False, session_open\<lparr>page := Some 1\<rparr>, [Click (py ''xpath='' @ submit_xpath)])"
    by (simp add: click_element_open [OF h1 example_find3])
  with chain show ?thesis by simp
qed

text \<open>
  Claim C4, as amended. For an element at index 3 with \<^verbatim>\<open>id="submit"\<close>, \<^verbatim>\<open>click_element\<close>
  clicks through the XPath locator when the recorded XPath is not empty, and through the
  selector \<^verbatim>\<open>#submit\<close> only when it is empty. That click is the only call made, so no
  coordinate click happens, and the call reports success exactly when the click returns.
\<close>

theorem click_element_id_submit:
  assumes "page s = Some p"
    and "find (\<lambda>e. index e = 3) elems = Some el"
    and "map_of (attributes el) (py ''id'') = Some (py ''submit'')"
  shows
    "snd (snd (click_element fl eng s 3 elems)) =
       [Click (if xpath el \<noteq> [] then py ''xpath='' @ xpath el else py ''#submit'')] \<and>
     (fst (click_element fl eng s 3 elems) = Inr True \<longleftrightarrow>
        (\<exists>b p'. respond eng (Click (if xpath el \<noteq> [] then py ''xpath='' @ xpath el else py ''#submit'')) p
                  = (Returned b, p')))"
proof (cases "xpath el = []")
  case True
  have "py ''#'' @ py ''submit'' = py ''#submit''" by (simp add: py_def)
  with True assms(3) have "click_try fl eng p el = attempt eng (Click (py ''#submit'')) p"
    by (simp add: click_try_id)
  with True show ?thesis
    by (simp add: click_element_trace [OF assms(1,2)] click_element_result [OF assms(1,2)]
        attempt_trace attempt_result)
next
  case False
  then have "click_try fl eng p el = attempt eng (Click (py ''xpath='' @ xpath el)) p"
    by (simp add: click_try_xpath)
  with False show ?thesis
    by (simp add: click_element_trace [OF assms(1,2)] click_element_result [OF assms(1,2)]
        attempt_trace attempt_result)
qed

text \<open>The amended claim at the sample page, where the recorded XPath is the id form.\<close>

theorem click_element_id_submit_witness:
  "page session_open = Some 0 \<and>
   find (\<lambda>e. index e = 3) example_elements = Some (example_elements ! 3) \<and>
   map_of (attributes (example_elements ! 3)) (py ''id'') = Some (py ''submit'') \<and>
   snd (snd (click_element sample_arith engine_ok session_open 3 example_elements)) =
     [Click (py ''xpath='' @ submit_xpath)] \<and>
   fst (click_element sample_arith engine_ok session_open 3 example_elements) = Inr True"
proof -
  have h3: "map_of (attributes (example_elements ! 3)) (py ''id'') = Some (py ''submit'')"
    by (simp add: example_el3)
  from click_element_id_submit
         [OF session_pages(1) example_find3 h3, where fl = sample_arith and eng = engine_ok] h3
  show ?thesis
    by (auto simp: session_pages example_find3 example_el3 submit_xpath_nonempty engine_ok_respond)
qed

text \<open>
  Claim C4 as stated fails: the classifier gives the button with \<^verbatim>\<open>id="submit"\<close> index
  3 and the XPath of the id form, and \<^verbatim>\<open>click_element\<close> clicks through the XPath locator,
  not through the id selector.
\<close>

theorem click_element_id_not_selected:
  "index (classify example_document ! 3) = 3 \<and>
   map_of (attributes (classify example_document ! 3)) (py ''id'') = Some (py ''submit'') \<and>
   snd (snd (click_element sample_arith engine_ok session_open 3 (classify example_document))) =
     [Click (py ''xpath='' @ submit_xpath)] \<and>
   snd (snd (click_element sample_arith engine_ok session_open 3 (classify example_document))) \<noteq>
     [Click (py ''#submit'')]"
proof -
  have "click_try sample_arith engine_ok 0 (example_elements ! 3) =
      attempt engine_ok (Click (py ''xpath='' @ submit_xpath)) 0"
    by (simp add: click_try_xpath example_el3 submit_xpath_nonempty)
  then have "snd (snd (click_element sample_arith engine_ok session_open 3 example_elements)) =
     [Click (py ''xpath='' @ submit_xpath)]"
    by (simp add: click_element_trace [OF session_pages(1) example_find3] attempt_trace)
  then show ?thesis
    by (simp add: classify_example example_el3) (simp add: example_elements_def py_def)
qed

text \<open>
  Claim C5, as amended. On a session with no page open, \<^verbatim>\<open>highlight_element\<close> and
  \<^verbatim>\<open>click_element\<close> return the ordinary failure result \<^verbatim>\<open>False\<close>: nothing is raised, the
  session is unchanged and no call into the engine is made. Of the operations that need
  a page only \<^verbatim>\<open>find_clickable_elements\<close> raises, a \<^verbatim>\<open>ValueError\<close>.
\<close>

theorem unopened_session_returns_false:
  assumes "page s = None"
  shows "highlight_element eng s i elems = (Inr False, s, []) \<and>
         click_element fl eng s i elems = (Inr False, s, []) \<and>
         find_clickable_elements eng s =
           (Inl (ValueError (py ''No page is open. Call open_page() first.'')), s, [])"
  using assms by (simp add: highlight_element_def click_element_def find_clickable_elements_def)

theorem unopened_session_returns_false_witness:
  "page session_unopened = None \<and>
   highlight_element engine_ok session_unopened 3 example_elements = (Inr False, session_unopened, []) \<and>
   click_element sample_arith engine_ok session_unopened 3 example_elements =
     (Inr False, session_unopened, []) \<and>
   find_clickable_elements engine_ok session_unopened =
     (Inl (ValueError (py ''No page is open. Call open_page() first.'')), session_unopened, [])"
  using unopened_session_returns_false
          [OF session_pages(2), where eng = engine_ok and fl = sample_arith and i = 3
             and elems = example_elements]
  by (simp add: session_pages)

text \<open>
  Claim C5 as stated fails: on the unopened session both index-based operations return
  \<^verbatim>\<open>False\<close> for an index the snapshot holds; neither raises.
\<close>

theorem unopened_session_no_usage_error:
  "fst (highlight_element engine_ok session_unopened 3 example_elements) = Inr False \<and>
   fst (click_element sample_arith engine_ok session_unopened 3 example_elements) = Inr False \<and>
   3 \<in> set (map index example_elements)"
  by (simp add: highlight_element_def click_element_def session_pages example_indices)

text \<open>
  Claim C6. When no element of the snapshot carries the requested index,
  \<^verbatim>\<open>highlight_element\<close> and \<^verbatim>\<open>click_element\<close> both return \<^verbatim>\<open>False\<close> without raising; the
  session and its page are what they were and no call into the engine has been made.
\<close>

theorem unknown_index_returns_false:
  assumes "i \<notin> set (map index elems)"
  shows "highlight_element eng s i elems = (Inr False, s, []) \<and>
         click_element fl eng s i elems = (Inr False, s, [])"
  using find_index_None [OF assms]
  by (simp add: highlight_element_unresolved click_element_unresolved)

theorem unknown_index_returns_false_witness:
  "7 \<notin> set (map index example_elements) \<and>
   highlight_element engine_ok session_open 7 example_elements = (Inr False, session_open, []) \<and>
   click_element sample_arith engine_ok session_open 7 example_elements = (Inr False, session_open, [])"
proof -
  have h: "7 \<notin> set (map index example_elements)" by (simp add: example_indices)
  from unknown_index_returns_false
         [OF h, where eng = engine_ok and s = session_open and fl = sample_arith] h
  show ?thesis by simp
qed

text \<open>
  Claim C7. The flag \<^verbatim>\<open>isInViewport\<close> recorded for an element is true when its bounding
  rectangle lies within the viewport widened by 100px on each of the four edges, and
  false when the rectangle lies wholly more than 100px outside one of the edges. The
  rectangle is one with \<open>left \<le> right\<close> and \<open>top \<le> bottom\<close>, as every \<^verbatim>\<open>DOMRect\<close> is.
\<close>

theorem viewport_tolerance:
  assumes "rect_left r \<le> rect_right r" and "rect_top r \<le> rect_bottom r"
    and "r = getBoundingClientRect e"
  shows "(rect_points r \<subseteq> expanded_viewport w 100 \<longrightarrow> js_isInViewport (describe w i anc prev e)) \<and>
         (entirely_beyond w 100 r \<longrightarrow> \<not> js_isInViewport (describe w i anc prev e))"
  using within_expanded_in_viewport [OF assms] beyond_not_in_viewport [OF assms]
  by (simp add: describe_isInViewport)

text \<open>
  The claim at a rectangle 50px above the top edge of a 1280 by 800 viewport, which is
  marked in-viewport, and at one 150px below its bottom edge, which is not.
\<close>

theorem viewport_tolerance_witness:
  "rect_left rect_in_margin \<le> rect_right rect_in_margin \<and>
   rect_top rect_in_margin \<le> rect_bottom rect_in_margin \<and>
   rect_points rect_in_margin \<subseteq> expanded_viewport (doc_window example_document) 100 \<and>
   js_isInViewport (describe (doc_window example_document) 0 [] []
     ((example_element ''A'' [])\<lparr>getBoundingClientRect := rect_in_margin\<rparr>)) \<and>
   rect_left rect_far_below \<le> rect_right rect_far_below \<and>
   rect_top rect_far_below \<le> rect_bottom rect_far_below \<and>
   entirely_beyond (doc_window example_document) 100 rect_far_below \<and>
   \<not> js_isInViewport (describe (doc_window example_document) 0 [] []
     ((example_element ''A'' [])\<lparr>getBoundingClientRect := rect_far_below\<rparr>))"
proof -
  let ?w = "doc_window example_document"
  let ?e1 = "(example_element ''A'' [])\<lparr>getBoundingClientRect := rect_in_margin\<rparr>"
  let ?e2 = "(example_element ''A'' [])\<lparr>getBoundingClientRect := rect_far_below\<rparr>"
  have a1: "rect_left rect_in_margin \<le> rect_right rect_in_margin"
    and a2: "rect_top rect_in_margin \<le> rect_bottom rect_in_margin"
    by (simp_all add: rect_in_margin_def)
  have a3: "rect_in_margin = getBoundingClientRect ?e1" by simp
  have a4: "rect_points rect_in_margin \<subseteq> expanded_viewport ?w 100"
    by (auto simp: rect_points_def expanded_viewport_def rect_in_margin_def example_window)
  have b1: "rect_left rect_far_below \<le> rect_right rect_far_below"
    and b2: "rect_top rect_far_below \<le> rect_bottom rect_far_below"
    by (simp_all add: rect_far_below_def)
  have b3: "rect_far_below = getBoundingClientRect ?e2" by simp
  have "rect_points rect_far_below \<subseteq> {(px, py). innerHeight ?w + 100 < py}"
    by (auto simp: rect_points_def rect_far_below_def example_window)
  then have b4: "entirely_beyond ?w 100 rect_far_below"
    by (simp add: entirely_beyond_def)
  from viewport_tolerance [OF a1 a2 a3, of ?w 0 "[]" "[]"]
       viewport_tolerance [OF b1 b2 b3, of ?w 0 "[]" "[]"]
       a1 a2 a4 b1 b2 b4
  show ?thesis by blast
qed

text \<open>
  Claim C8, as amended. For an analysis none of whose strings has a lone surrogate, none
  of whose indices has more than 4300 digits and none of whose box values is NaN,
  \<^verbatim>\<open>save_to_file\<close> writes the document, and the element sequence read back from it is the
  original one: the same elements in the same order, each with its index, tag name, text,
  attributes, XPath, two flags and box values, and equal to the original as Python
  compares them.
\<close>

theorem document_roundtrip:
  assumes "no_lone_surrogate a" and "indices_writable a" and "no_nan a"
  shows "\<exists>doc es. save_to_file a filename = Inr doc \<and> parse_elements doc = Some es \<and>
           es = elements a \<and> list_all2 ElementInfo_eq es (elements a)"
  using assms by (simp add: save_to_file_writes parse_to_dict elements_eq_refl)

text \<open>The amended claim at the analysis of the sample page.\<close>

theorem document_roundtrip_witness:
  "no_lone_surrogate example_analysis \<and> indices_writable example_analysis \<and>
   no_nan example_analysis \<and>
   save_to_file example_analysis (py ''out.json'') = Inr (PageAnalysis_to_dict example_analysis) \<and>
   parse_elements (PageAnalysis_to_dict example_analysis) = Some example_elements \<and>
   list_all2 ElementInfo_eq example_elements example_elements"
proof -
  have h1: "no_lone_surrogate example_analysis"
    by (simp add: no_lone_surrogate_def analysis_strings_def example_analysis_def
        example_elements_def element_strings_def example_box_def submit_xpath_def py_encodable
        encodable_Nil)
  have h2: "indices_writable example_analysis"
    by (simp add: indices_writable_def example_analysis_def example_elements_def
        int_error_None [symmetric] int_error_small)
  have h3: "no_nan example_analysis"
    by (simp add: no_nan_def example_analysis_def example_elements_def example_box_def)
  have e: "elements example_analysis = example_elements"
    by (simp add: example_analysis_def)
  from document_roundtrip [OF h1 h2 h3, of "py ''out.json''"]
  obtain doc es where "save_to_file example_analysis (py ''out.json'') = Inr doc"
    and "parse_elements doc = Some es" and "es = elements example_analysis"
    and "list_all2 ElementInfo_eq es (elements example_analysis)"
    by blast
  moreover have "save_to_file example_analysis (py ''out.json'') =
      Inr (PageAnalysis_to_dict example_analysis)"
    using h1 h2 by (rule save_to_file_writes)
  ultimately show ?thesis using h1 h2 h3 e by simp
qed

text \<open>
  Claim C8 as stated fails at two analyses. For the one whose text ends in a lone
  surrogate, \<^verbatim>\<open>save_to_file\<close> raises \<^verbatim>\<open>UnicodeEncodeError\<close> and there is no document to
  read. For the one with a NaN box value the document is written and read back, and the
  sequence read back is not equal to the original, NaN being unequal to itself.
\<close>

theorem document_roundtrip_fails:
  "save_to_file surrogate_analysis (py ''out.json'') = Inl UnicodeEncodeError \<and>
   save_to_file nan_analysis (py ''out.json'') = Inr (PageAnalysis_to_dict nan_analysis) \<and>
   parse_elements (PageAnalysis_to_dict nan_analysis) = Some (elements nan_analysis) \<and>
   \<not> list_all2 ElementInfo_eq (elements nan_analysis) (elements nan_analysis)"
proof -
  have "\<not> encodable (elem_text surrogate_element)"
    by (simp add: surrogate_element_def encodable_def)
  then have t: "string_error (elem_text surrogate_element) = Some UnicodeEncodeError"
    by (simp add: string_error_def)
  have "dump_error (ElementInfo_to_dict surrogate_element) = Some UnicodeEncodeError"
    by (simp add: ElementInfo_to_dict_def string_error_py t)
       (simp add: surrogate_element_def int_error_small string_error_py)
  then have s: "dump_error (PageAnalysis_to_dict surrogate_analysis) = Some UnicodeEncodeError"
    by (simp add: PageAnalysis_to_dict_def surrogate_analysis_def string_error_py)
  have n1: "no_lone_surrogate nan_analysis"
    by (simp add: no_lone_surrogate_def analysis_strings_def nan_analysis_def
        nan_element_def element_strings_def py_encodable)
  have n2: "indices_writable nan_analysis"
    by (simp add: indices_writable_def nan_analysis_def nan_element_def
        int_error_None [symmetric] int_error_small)
  have "\<not> ElementInfo_eq nan_element nan_element"
    by (simp add: ElementInfo_eq_def dict_eq_def float_eq_def nan_element_def)
  then have q: "\<not> list_all2 ElementInfo_eq (elements nan_analysis) (elements nan_analysis)"
    by (simp add: nan_analysis_def)
  have w: "save_to_file surrogate_analysis (py ''out.json'') = Inl UnicodeEncodeError"
    using s by (simp add: save_to_file_def Let_def)
  from w q save_to_file_writes [OF n1 n2, of "py ''out.json''"] show ?thesis
    by (simp add: parse_to_dict)
qed

text \<open>
  Claim C9. Every element of a classification pass has an XPath that is not empty and
  starts with a slash: the id form \<^verbatim>\<open>//*[@id="..."]\<close> or a positional path. So for such
  an element \<^verbatim>\<open>click_element\<close> makes the click through the XPath locator and nothing
  else; the click through an id selector is never made.
\<close>

theorem classified_xpath_nonempty:
  assumes "el \<in> set (classify d)"
    and "page s = Some p"
    and "find (\<lambda>e. index e = i) elems = Some el"
  shows "xpath el \<noteq> [] \<and> hd (xpath el) = of_char (CHR ''/'') \<and>
         ((\<exists>ident. ident \<noteq> [] \<and>
             xpath el = py (''//*[@id='' @ [CHR 0x22] @ ident @ [CHR 0x22] @ '']'')) \<or>
          (\<exists>parts. parts \<noteq> [] \<and> xpath el = py (''/'' @ join ''/'' parts))) \<and>
         snd (snd (click_element fl eng s i elems)) = [Click (py ''xpath='' @ xpath el)] \<and>
         (\<forall>ident. Click (py ''#'' @ ident) \<notin> set (snd (snd (click_element fl eng s i elems))))"
proof -
  from classify_member [OF assms(1)] obtain k a pv e
    where el: "el = to_ElementInfo (describe (doc_window d) k a pv e)" by blast
  then have xp: "xpath el = py (getXPath e pv a)"
    by (simp add: to_ElementInfo_def describe_def)
  have ne: "xpath el \<noteq> []"
    using getXPath_nonempty [of e pv a] by (simp add: xp)
  have hd: "hd (xpath el) = of_char (CHR ''/'')"
    using getXPath_nonempty [of e pv a] by (simp add: xp py_hd)
  have shape: "(\<exists>ident. ident \<noteq> [] \<and>
             xpath el = py (''//*[@id='' @ [CHR 0x22] @ ident @ [CHR 0x22] @ '']'')) \<or>
          (\<exists>parts. parts \<noteq> [] \<and> xpath el = py (''/'' @ join ''/'' parts))"
    using getXPath_shape [of e pv a] by (simp only: xp py_eq_iff)
  have tr: "snd (snd (click_element fl eng s i elems)) = [Click (py ''xpath='' @ xpath el)]"
    using ne by (simp add: click_element_trace [OF assms(2,3)] click_try_xpath attempt_trace)
  have "\<forall>ident. Click (py ''#'' @ ident) \<notin> set (snd (snd (click_element fl eng s i elems)))"
    by (simp add: tr hash_not_xpath)
  with ne hd shape tr show ?thesis by blast
qed

theorem classified_xpath_nonempty_witness:
  "example_elements ! 3 \<in> set (classify example_document) \<and>
   page session_open = Some 0 \<and>
   find (\<lambda>e. index e = 3) example_elements = Some (example_elements ! 3) \<and>
   xpath (example_elements ! 3) \<noteq> [] \<and>
   hd (xpath (example_elements ! 3)) = of_char (CHR ''/'') \<and>
   snd (snd (click_element sample_arith engine_ok session_open 3 example_elements)) =
     [Click (py ''xpath='' @ xpath (example_elements ! 3))]"
proof -
  have h: "example_elements ! 3 \<in> set (classify example_document)"
    by (simp add: classify_example example_el3)
  from classified_xpath_nonempty
         [OF h session_pages(1) example_find3, where fl = sample_arith and eng = engine_ok] h
  show ?thesis by (simp add: session_pages example_find3)
qed

text \<open>
  Claim C10. Every element that \<^verbatim>\<open>find_clickable_elements\<close> returns has \<^verbatim>\<open>is_visible\<close>
  true: the script writes the constant \<^verbatim>\<open>true\<close> into every record it pushes, and the
  Python side copies the field.
\<close>

theorem classified_always_visible:
  assumes "find_clickable_elements eng s = (Inr els, s', tr)"
    and "el \<in> set els"
  shows "is_visible el"
proof -
  from assms(1) obtain p where "els = classify (live_document eng p)"
    by (auto simp: find_clickable_elements_def split: option.splits prod.splits response.splits)
  with assms(2) classify_member obtain k a pv e
    where "el = to_ElementInfo (describe (doc_window (live_document eng p)) k a pv e)" by blast
  then show ?thesis by (simp add: to_ElementInfo_def describe_def)
qed

theorem classified_always_visible_witness:
  "find_clickable_elements engine_ok session_open =
     (Inr example_elements, session_open\<lparr>page := Some 1\<rparr>, [Evaluate_clickable]) \<and>
   example_elements ! 3 \<in> set example_elements \<and>
   is_visible (example_elements ! 3)"
proof -
  have h: "find_clickable_elements engine_ok session_open =
     (Inr example_elements, session_open\<lparr>page := Some 1\<rparr>, [Evaluate_clickable])"
    by (simp add: find_clickable_elements_def session_pages engine_ok_respond
        live_document_engine_ok classify_example)
  from classified_always_visible [OF h example_el3(3)] h example_el3(3)
  show ?thesis by simp
qed

end
